theory Spec2Isabelle
  imports Main
begin

section \<open>Spans over composite keys (package constraint, span.go)\<close>

text \<open>
  The Go source of the span type is the second document of
  \<^verbatim>\<open>src/pkg/ui/src/views/cluster/containers/timescale/index.tsx\<close> (after the
  separator line). A method with a pointer receiver \<^verbatim>\<open>sp *Span\<close> mutates the span in
  place; the model passes the span in and returns it, as it is when the method returns or
  panics, next to the outcome: \<open>Inl\<close> of the panic, \<open>Inr\<close> of the returned value.
\<close>

subsection \<open>Boundaries and key extensions\<close>

text \<open>
  \<^verbatim>\<open>type SpanBoundary bool\<close> with \<^verbatim>\<open>IncludeBoundary = false\<close> and
  \<^verbatim>\<open>ExcludeBoundary = true\<close>.
\<close>

type_synonym SpanBoundary = bool

definition IncludeBoundary :: SpanBoundary where
  "IncludeBoundary = False"

definition ExcludeBoundary :: SpanBoundary where
  "ExcludeBoundary = True"

text \<open>
  Modelled from the spec: \<^verbatim>\<open>KeyExtension\<close> is declared in key.go, which is not among
  the sources. It has the two values ExtendLow and ExtendHigh; the comments of
  \<^verbatim>\<open>startExt\<close> and \<^verbatim>\<open>endExt\<close> give their representation
  (\<^verbatim>\<open>ExtendLow (false)\<close>, \<^verbatim>\<open>ExtendHigh (true)\<close>), and both methods convert a
  \<^verbatim>\<open>SpanBoundary\<close> to it.
\<close>

type_synonym KeyExtension = bool

definition ExtendLow :: KeyExtension where
  "ExtendLow = False"

definition ExtendHigh :: KeyExtension where
  "ExtendHigh = True"

subsection \<open>The key interface\<close>

text \<open>
  Modelled from the spec: the types \<^verbatim>\<open>Key\<close> and \<^verbatim>\<open>KeyContext\<close> and the methods
  \<^verbatim>\<open>IsEmpty\<close>, \<^verbatim>\<open>Compare\<close>, \<^verbatim>\<open>Next\<close> and \<^verbatim>\<open>Prev\<close> of a key live in key.go,
  which is not among the sources. The span methods only call them, so they are taken as
  a parameter: a record of the four methods over a type \<open>'k\<close> of keys and a type \<open>'c\<close>
  of key contexts. \<^verbatim>\<open>k.Compare(keyCtx, l, kext, lext)\<close> returns an int that the span
  code tests against 0; \<^verbatim>\<open>k.Next(keyCtx)\<close> and \<^verbatim>\<open>k.Prev(keyCtx)\<close> return a key and
  an ok flag.
\<close>

record ('k, 'c) Key =
  IsEmpty :: "'k \<Rightarrow> bool"
  Compare :: "'k \<Rightarrow> 'c \<Rightarrow> 'k \<Rightarrow> KeyExtension \<Rightarrow> KeyExtension \<Rightarrow> int"
  Next :: "'k \<Rightarrow> 'c \<Rightarrow> 'k \<times> bool"
  Prev :: "'k \<Rightarrow> 'c \<Rightarrow> 'k \<times> bool"

subsection \<open>The span\<close>

record 'k Span =
  start :: 'k
  end' :: 'k
  startBoundary :: SpanBoundary
  endBoundary :: SpanBoundary
  immutable :: bool

text \<open>A Go panic, with its message.\<close>

datatype panic = Panic string

definition startExt :: "'k Span \<Rightarrow> KeyExtension" where
  "startExt sp = startBoundary sp"

definition endExt :: "'k Span \<Rightarrow> KeyExtension" where
  "endExt sp = (\<not> endBoundary sp)"

definition IsUnconstrained :: "('k, 'c) Key \<Rightarrow> 'k Span \<Rightarrow> bool" where
  "IsUnconstrained K sp = (IsEmpty K (start sp) \<and> IsEmpty K (end' sp))"

text \<open>
  The second half of \<^verbatim>\<open>Set\<close>: the four assignments, then the check that the start
  boundary is less than the end boundary, made on the fields just written.
\<close>

definition Set_assign ::
  "('k, 'c) Key \<Rightarrow> 'k Span \<Rightarrow> 'c \<Rightarrow> 'k \<Rightarrow> SpanBoundary \<Rightarrow> 'k \<Rightarrow> SpanBoundary
    \<Rightarrow> (panic + unit) \<times> 'k Span" where
  "Set_assign K sp keyCtx start0 startBoundary0 end0 endBoundary0 =
    (let sp1 = sp\<lparr>start := start0\<rparr>;
         sp2 = sp1\<lparr>startBoundary := startBoundary0\<rparr>;
         sp3 = sp2\<lparr>end' := end0\<rparr>;
         sp4 = sp3\<lparr>endBoundary := endBoundary0\<rparr>
     in if Compare K (start sp4) keyCtx (end' sp4) (startExt sp4) (endExt sp4) \<ge> 0
        then (Inl (Panic ''span cannot be empty''), sp4)
        else (Inr (), sp4))"

definition Set ::
  "('k, 'c) Key \<Rightarrow> 'k Span \<Rightarrow> 'c \<Rightarrow> 'k \<Rightarrow> SpanBoundary \<Rightarrow> 'k \<Rightarrow> SpanBoundary
    \<Rightarrow> (panic + unit) \<times> 'k Span" where
  "Set K sp keyCtx start0 startBoundary0 end0 endBoundary0 =
    (if immutable sp then (Inl (Panic ''mutation disallowed''), sp)
     else if IsEmpty K start0 then
       (if IsEmpty K end0 then (Inl (Panic ''unconstrained span should never be used''), sp)
        else if startBoundary0 = ExcludeBoundary
          then (Inl (Panic ''an empty start boundary must be inclusive''), sp)
        else Set_assign K sp keyCtx start0 startBoundary0 end0 endBoundary0)
     else if IsEmpty K end0 then
       (if endBoundary0 = ExcludeBoundary
          then (Inl (Panic ''an empty end boundary must be inclusive''), sp)
        else Set_assign K sp keyCtx start0 startBoundary0 end0 endBoundary0)
     else Set_assign K sp keyCtx start0 startBoundary0 end0 endBoundary0)"

definition CompareStarts :: "('k, 'c) Key \<Rightarrow> 'k Span \<Rightarrow> 'c \<Rightarrow> 'k Span \<Rightarrow> int" where
  "CompareStarts K sp keyCtx other =
    Compare K (start sp) keyCtx (start other) (startExt sp) (startExt other)"

definition CompareEnds :: "('k, 'c) Key \<Rightarrow> 'k Span \<Rightarrow> 'c \<Rightarrow> 'k Span \<Rightarrow> int" where
  "CompareEnds K sp keyCtx other =
    Compare K (end' sp) keyCtx (end' other) (endExt sp) (endExt other)"

definition SpanCompare :: "('k, 'c) Key \<Rightarrow> 'k Span \<Rightarrow> 'c \<Rightarrow> 'k Span \<Rightarrow> int" where
  "SpanCompare K sp keyCtx other =
    (let cmp = CompareStarts K sp keyCtx other in
     if cmp \<noteq> 0 then cmp
     else let cmp = CompareEnds K sp keyCtx other in
       if cmp \<noteq> 0 then cmp else 0)"

definition StartsAfter :: "('k, 'c) Key \<Rightarrow> 'k Span \<Rightarrow> 'c \<Rightarrow> 'k Span \<Rightarrow> bool" where
  "StartsAfter K sp keyCtx other =
    (Compare K (start sp) keyCtx (end' other) (startExt sp) (endExt other) \<ge> 0)"

text \<open>
  The updates at the end of \<^verbatim>\<open>TryIntersectWith\<close>, made once the intersection is known
  not to be empty.
\<close>

definition intersect_update :: "int \<Rightarrow> int \<Rightarrow> 'k Span \<Rightarrow> 'k Span \<Rightarrow> 'k Span" where
  "intersect_update cmpStarts cmpEnds sp other =
    (let sp1 = (if cmpStarts < 0
                then sp\<lparr>start := start other, startBoundary := startBoundary other\<rparr>
                else sp)
     in if cmpEnds > 0
        then sp1\<lparr>end' := end' other, endBoundary := endBoundary other\<rparr>
        else sp1)"

definition TryIntersectWith ::
  "('k, 'c) Key \<Rightarrow> 'k Span \<Rightarrow> 'c \<Rightarrow> 'k Span \<Rightarrow> (panic + bool) \<times> 'k Span" where
  "TryIntersectWith K sp keyCtx other =
    (if immutable sp then (Inl (Panic ''mutation disallowed''), sp)
     else
       let cmpStarts = CompareStarts K sp keyCtx other in
       if cmpStarts > 0 \<and>
          Compare K (start sp) keyCtx (end' other) (startExt sp) (endExt other) \<ge> 0
       then (Inr False, sp)
       else
         let cmpEnds = CompareEnds K sp keyCtx other in
         if cmpEnds < 0 \<and>
            Compare K (end' sp) keyCtx (start other) (endExt sp) (startExt other) \<le> 0
         then (Inr False, sp)
         else (Inr True, intersect_update cmpStarts cmpEnds sp other))"

text \<open>
  \<^verbatim>\<open>TryUnionWith\<close>: \<^verbatim>\<open>var cmp int\<close> starts at 0 and keeps that value when the two
  starts compare equal.
\<close>

definition union_update :: "int \<Rightarrow> int \<Rightarrow> 'k Span \<Rightarrow> 'k Span \<Rightarrow> 'k Span" where
  "union_update cmpStartKeys cmpEndKeys sp other =
    (let sp1 = (if cmpStartKeys > 0
                then sp\<lparr>start := start other, startBoundary := startBoundary other\<rparr>
                else sp)
     in if cmpEndKeys < 0
        then sp1\<lparr>end' := end' other, endBoundary := endBoundary other\<rparr>
        else sp1)"

definition TryUnionWith ::
  "('k, 'c) Key \<Rightarrow> 'k Span \<Rightarrow> 'c \<Rightarrow> 'k Span \<Rightarrow> (panic + bool) \<times> 'k Span" where
  "TryUnionWith K sp keyCtx other =
    (if immutable sp then (Inl (Panic ''mutation disallowed''), sp)
     else
       let cmpStartKeys = CompareStarts K sp keyCtx other;
           cmp = (if cmpStartKeys < 0
                  then Compare K (end' sp) keyCtx (start other) (endExt sp) (startExt other)
                  else if cmpStartKeys > 0
                  then Compare K (end' other) keyCtx (start sp) (endExt other) (startExt sp)
                  else 0)
       in if cmp < 0 then (Inr False, sp)
          else
            let cmpEndKeys = CompareEnds K sp keyCtx other
            in (Inr True, union_update cmpStartKeys cmpEndKeys sp other))"

definition PreferInclusive ::
  "('k, 'c) Key \<Rightarrow> 'k Span \<Rightarrow> 'c \<Rightarrow> (panic + unit) \<times> 'k Span" where
  "PreferInclusive K sp keyCtx =
    (if immutable sp then (Inl (Panic ''mutation disallowed''), sp)
     else
       let sp1 = (if startBoundary sp = ExcludeBoundary
                  then (case Next K (start sp) keyCtx of
                          (key, ok) \<Rightarrow>
                            if ok then sp\<lparr>start := key, startBoundary := IncludeBoundary\<rparr>
                            else sp)
                  else sp);
           sp2 = (if endBoundary sp1 = ExcludeBoundary
                  then (case Prev K (end' sp1) keyCtx of
                          (key, ok) \<Rightarrow>
                            if ok then sp1\<lparr>end' := key, endBoundary := IncludeBoundary\<rparr>
                            else sp1)
                  else sp1)
       in (Inr (), sp2))"

definition Copy :: "'k Span \<Rightarrow> 'k Span" where
  "Copy sp = sp\<lparr>immutable := False\<rparr>"

definition makeImmutable :: "'k Span \<Rightarrow> 'k Span" where
  "makeImmutable sp = sp\<lparr>immutable := True\<rparr>"

section \<open>The contract of the key comparison\<close>

text \<open>
  The spec requires of \<^verbatim>\<open>Key.Compare\<close>, for a fixed key context, a total order on
  extended keys (a key with its extension). A comparison function that returns the sign is
  such an order when swapping the sides negates the result, when "at most" composes, and
  when only an extended key and itself compare equal.
\<close>

definition Compare_antisymmetric :: "('k, 'c) Key \<Rightarrow> 'c \<Rightarrow> bool" where
  "Compare_antisymmetric K keyCtx =
    (\<forall>k l kext lext. Compare K k keyCtx l kext lext = - Compare K l keyCtx k lext kext)"

definition Compare_transitive :: "('k, 'c) Key \<Rightarrow> 'c \<Rightarrow> bool" where
  "Compare_transitive K keyCtx =
    (\<forall>k l m kext lext mext.
       Compare K k keyCtx l kext lext \<le> 0 \<and> Compare K l keyCtx m lext mext \<le> 0
       \<longrightarrow> Compare K k keyCtx m kext mext \<le> 0)"

definition Compare_separates :: "('k, 'c) Key \<Rightarrow> 'c \<Rightarrow> bool" where
  "Compare_separates K keyCtx =
    (\<forall>k l kext lext. Compare K k keyCtx l kext lext = 0 \<longrightarrow> k = l \<and> kext = lext)"

text \<open>Equal key tuples order ExtendLow before ExtendHigh.\<close>

definition Compare_low_before_high :: "('k, 'c) Key \<Rightarrow> 'c \<Rightarrow> bool" where
  "Compare_low_before_high K keyCtx =
    (\<forall>k. Compare K k keyCtx k ExtendLow ExtendHigh < 0)"

section \<open>A key type: tuples of integers\<close>

text \<open>
  Modelled from the spec: key.go is not among the sources, so the examples of the spec
  (spans over integer keys such as \<^verbatim>\<open>[1 - 5]\<close>) are stated over this model of a key. A
  key is a tuple of integers, each column ascending; the key context carries nothing.
  \<^verbatim>\<open>IsEmpty\<close> holds of the zero-length tuple. Comparison first compares the tuples
  column by column; a key that is a proper prefix of the other is decided by its own
  extension (the extension stands for a value lower, or higher, than everything that can
  follow the prefix); equal tuples order ExtendLow before ExtendHigh. \<^verbatim>\<open>Next\<close> and
  \<^verbatim>\<open>Prev\<close> are the next and the previous representable value, which for integers is
  the key with its last column plus or minus one; the empty key has neither.
\<close>

definition ToCmp :: "KeyExtension \<Rightarrow> int" where
  "ToCmp ext = (if ext = ExtendHigh then 1 else -1)"

fun tupleCompare :: "int list \<Rightarrow> int list \<Rightarrow> KeyExtension \<Rightarrow> KeyExtension \<Rightarrow> int" where
  "tupleCompare [] [] kext lext = (if kext = lext then 0 else ToCmp kext)"
| "tupleCompare [] (y # l) kext lext = ToCmp kext"
| "tupleCompare (x # k) [] kext lext = - ToCmp lext"
| "tupleCompare (x # k) (y # l) kext lext =
    (if x < y then -1 else if x > y then 1 else tupleCompare k l kext lext)"

fun tupleNext :: "int list \<Rightarrow> int list \<times> bool" where
  "tupleNext [] = ([], False)"
| "tupleNext [x] = ([x + 1], True)"
| "tupleNext (x # k) = (case tupleNext k of (k', ok) \<Rightarrow> (x # k', ok))"

fun tuplePrev :: "int list \<Rightarrow> int list \<times> bool" where
  "tuplePrev [] = ([], False)"
| "tuplePrev [x] = ([x - 1], True)"
| "tuplePrev (x # k) = (case tuplePrev k of (k', ok) \<Rightarrow> (x # k', ok))"

definition IntKey :: "(int list, unit) Key" where
  "IntKey = \<lparr> IsEmpty = (\<lambda>k. k = []),
              Compare = (\<lambda>k keyCtx l kext lext. tupleCompare k l kext lext),
              Next = (\<lambda>k keyCtx. tupleNext k),
              Prev = (\<lambda>k keyCtx. tuplePrev k) \<rparr>"

text \<open>
  A key type as the string column of the comment of \<^verbatim>\<open>PreferInclusive\<close>: it has a
  next value and no previous one.
\<close>

definition NoPrevKey :: "(int list, unit) Key" where
  "NoPrevKey = IntKey \<lparr> Prev := (\<lambda>k keyCtx. (k, False)) \<rparr>"

section \<open>The notions of the specification\<close>

text \<open>
  The mapping rule of the spec: a start boundary extends low when inclusive and high when
  exclusive; an end boundary extends high when inclusive and low when exclusive.
\<close>

definition start_extension :: "SpanBoundary \<Rightarrow> KeyExtension" where
  "start_extension b = (if b = IncludeBoundary then ExtendLow else ExtendHigh)"

definition end_extension :: "SpanBoundary \<Rightarrow> KeyExtension" where
  "end_extension b = (if b = IncludeBoundary then ExtendHigh else ExtendLow)"

text \<open>
  The invariants I1 to I3: an empty start is inclusive, an empty end is inclusive, and the
  start strictly precedes the end under extended-key comparison.
\<close>

definition Span_valid :: "('k, 'c) Key \<Rightarrow> 'c \<Rightarrow> 'k Span \<Rightarrow> bool" where
  "Span_valid K keyCtx sp =
    ((IsEmpty K (start sp) \<longrightarrow> startBoundary sp = IncludeBoundary) \<and>
     (IsEmpty K (end' sp) \<longrightarrow> endBoundary sp = IncludeBoundary) \<and>
     Compare K (start sp) keyCtx (end' sp) (startExt sp) (endExt sp) < 0)"

text \<open>
  The span that \<^verbatim>\<open>Set\<close> is asked to make of \<open>sp\<close>, and the violations it can find in its
  arguments before it compares the two bounds: a frozen span, two empty bounds, an empty bound
  that is exclusive.
\<close>

definition Set_target ::
  "'k Span \<Rightarrow> 'k \<Rightarrow> SpanBoundary \<Rightarrow> 'k \<Rightarrow> SpanBoundary \<Rightarrow> 'k Span" where
  "Set_target sp s sb e eb =
    sp\<lparr>start := s, end' := e, startBoundary := sb, endBoundary := eb\<rparr>"

definition Set_malformed ::
  "('k, 'c) Key \<Rightarrow> 'k Span \<Rightarrow> 'k \<Rightarrow> SpanBoundary \<Rightarrow> 'k \<Rightarrow> SpanBoundary \<Rightarrow> bool" where
  "Set_malformed K sp s sb e eb =
    (immutable sp \<or> (IsEmpty K s \<and> IsEmpty K e) \<or>
     (IsEmpty K s \<and> sb = ExcludeBoundary) \<or> (IsEmpty K e \<and> eb = ExcludeBoundary))"

text \<open>
  Intersection, in the words of the spec: the span with the larger start and the span with
  the smaller end (the receiver's on a tie); the intersection is empty when that start is
  at or after that end; otherwise the receiver takes that start and that end, each with
  its boundary.
\<close>

definition larger_start :: "('k, 'c) Key \<Rightarrow> 'c \<Rightarrow> 'k Span \<Rightarrow> 'k Span \<Rightarrow> 'k Span" where
  "larger_start K keyCtx a b = (if CompareStarts K a keyCtx b \<ge> 0 then a else b)"

definition smaller_end :: "('k, 'c) Key \<Rightarrow> 'c \<Rightarrow> 'k Span \<Rightarrow> 'k Span \<Rightarrow> 'k Span" where
  "smaller_end K keyCtx a b = (if CompareEnds K a keyCtx b \<le> 0 then a else b)"

definition intersection_empty :: "('k, 'c) Key \<Rightarrow> 'c \<Rightarrow> 'k Span \<Rightarrow> 'k Span \<Rightarrow> bool" where
  "intersection_empty K keyCtx a b =
    (let s = larger_start K keyCtx a b; e = smaller_end K keyCtx a b
     in Compare K (start s) keyCtx (end' e) (startExt s) (endExt e) \<ge> 0)"

definition intersection_of :: "('k, 'c) Key \<Rightarrow> 'c \<Rightarrow> 'k Span \<Rightarrow> 'k Span \<Rightarrow> 'k Span" where
  "intersection_of K keyCtx a b =
    (let s = larger_start K keyCtx a b; e = smaller_end K keyCtx a b
     in a\<lparr>start := start s, end' := end' e,
           startBoundary := startBoundary s, endBoundary := endBoundary e\<rparr>)"

text \<open>
  Union, in the words of the spec: there is a gap when the span with the strictly lesser
  start has an end strictly less than the start of the other; without a gap the receiver
  takes the lesser start and the greater end (its own on a tie).
\<close>

definition smaller_start :: "('k, 'c) Key \<Rightarrow> 'c \<Rightarrow> 'k Span \<Rightarrow> 'k Span \<Rightarrow> 'k Span" where
  "smaller_start K keyCtx a b = (if CompareStarts K a keyCtx b \<le> 0 then a else b)"

definition larger_end :: "('k, 'c) Key \<Rightarrow> 'c \<Rightarrow> 'k Span \<Rightarrow> 'k Span \<Rightarrow> 'k Span" where
  "larger_end K keyCtx a b = (if CompareEnds K a keyCtx b \<ge> 0 then a else b)"

definition union_gap :: "('k, 'c) Key \<Rightarrow> 'c \<Rightarrow> 'k Span \<Rightarrow> 'k Span \<Rightarrow> bool" where
  "union_gap K keyCtx a b =
    ((CompareStarts K a keyCtx b < 0 \<and>
        Compare K (end' a) keyCtx (start b) (endExt a) (startExt b) < 0) \<or>
     (CompareStarts K b keyCtx a < 0 \<and>
        Compare K (end' b) keyCtx (start a) (endExt b) (startExt a) < 0))"

definition union_of :: "('k, 'c) Key \<Rightarrow> 'c \<Rightarrow> 'k Span \<Rightarrow> 'k Span \<Rightarrow> 'k Span" where
  "union_of K keyCtx a b =
    (let s = smaller_start K keyCtx a b; e = larger_end K keyCtx a b
     in a\<lparr>start := start s, end' := end' e,
           startBoundary := startBoundary s, endBoundary := endBoundary e\<rparr>)"

text \<open>
  Normalisation, in the words of the spec: an exclusive start whose key has a next value
  becomes that value, inclusive; an exclusive end whose key has a previous value becomes
  that value, inclusive; any other side stays as it is.
\<close>

definition inclusive_start :: "('k, 'c) Key \<Rightarrow> 'c \<Rightarrow> 'k Span \<Rightarrow> 'k \<times> SpanBoundary" where
  "inclusive_start K keyCtx sp =
    (if startBoundary sp = ExcludeBoundary \<and> snd (Next K (start sp) keyCtx)
     then (fst (Next K (start sp) keyCtx), IncludeBoundary)
     else (start sp, startBoundary sp))"

definition inclusive_end :: "('k, 'c) Key \<Rightarrow> 'c \<Rightarrow> 'k Span \<Rightarrow> 'k \<times> SpanBoundary" where
  "inclusive_end K keyCtx sp =
    (if endBoundary sp = ExcludeBoundary \<and> snd (Prev K (end' sp) keyCtx)
     then (fst (Prev K (end' sp) keyCtx), IncludeBoundary)
     else (end' sp, endBoundary sp))"

text \<open>The two tests by which \<^verbatim>\<open>TryIntersectWith\<close> returns false, as one condition.\<close>

definition intersect_fails :: "('k, 'c) Key \<Rightarrow> 'c \<Rightarrow> 'k Span \<Rightarrow> 'k Span \<Rightarrow> bool" where
  "intersect_fails K keyCtx a b =
    ((CompareStarts K a keyCtx b > 0 \<and>
       Compare K (start a) keyCtx (end' b) (startExt a) (endExt b) \<ge> 0) \<or>
     (CompareEnds K a keyCtx b < 0 \<and>
       Compare K (end' a) keyCtx (start b) (endExt a) (startExt b) \<le> 0))"

section \<open>The integer tuples meet the contract\<close>

lemma tupleCompare_antisym: "tupleCompare k l kext lext = - tupleCompare l k lext kext"
  by (induction k l kext lext rule: tupleCompare.induct)
     (auto simp: ToCmp_def ExtendHigh_def)

lemma tupleCompare_trans:
  "tupleCompare k l kext lext \<le> 0 \<Longrightarrow> tupleCompare l m lext mext \<le> 0
    \<Longrightarrow> tupleCompare k m kext mext \<le> 0"
proof (induction k arbitrary: l m)
  case Nil
  then show ?case
    by (cases l; cases m) (auto simp: ToCmp_def ExtendHigh_def split: if_splits)
next
  case (Cons x k)
  then show ?case
    by (cases l; cases m) (auto simp: ToCmp_def ExtendHigh_def split: if_splits)
qed

lemma tupleCompare_zero: "tupleCompare k l kext lext = 0 \<Longrightarrow> k = l \<and> kext = lext"
proof (induction k arbitrary: l)
  case Nil
  then show ?case
    by (cases l) (simp_all add: ToCmp_def split: if_splits)
next
  case (Cons x k)
  show ?case
  proof (cases l)
    case Nil
    with Cons.prems show ?thesis by (simp add: ToCmp_def split: if_splits)
  next
    case (Cons y l')
    with Cons.prems have "x = y" and "tupleCompare k l' kext lext = 0"
      by (simp_all split: if_splits)
    with Cons.IH [of l'] Cons show ?thesis by simp
  qed
qed

lemma tupleCompare_low_high: "tupleCompare k k ExtendLow ExtendHigh < 0"
  by (induction k) (simp_all add: ToCmp_def ExtendLow_def ExtendHigh_def)

lemma IntKey_antisymmetric: "Compare_antisymmetric IntKey keyCtx"
  by (auto simp: Compare_antisymmetric_def IntKey_def intro: tupleCompare_antisym)

lemma IntKey_transitive: "Compare_transitive IntKey keyCtx"
  by (auto simp: Compare_transitive_def IntKey_def intro: tupleCompare_trans)

lemma IntKey_separates: "Compare_separates IntKey keyCtx"
  by (auto simp: Compare_separates_def IntKey_def dest: tupleCompare_zero)

lemma IntKey_low_before_high: "Compare_low_before_high IntKey keyCtx"
  by (simp add: Compare_low_before_high_def IntKey_def tupleCompare_low_high)

text \<open>The equations by which the examples over integer keys are evaluated.\<close>

lemmas IntKey_eval = IntKey_def CompareStarts_def CompareEnds_def startExt_def
  endExt_def IncludeBoundary_def ExcludeBoundary_def ExtendLow_def ExtendHigh_def ToCmp_def
  Let_def

section \<open>Consequences of the contract\<close>

lemma Compare_flip:
  "Compare_antisymmetric K keyCtx \<Longrightarrow>
    Compare K l keyCtx k lext kext = - Compare K k keyCtx l kext lext"
  unfolding Compare_antisymmetric_def by blast

lemma Compare_refl:
  assumes "Compare_antisymmetric K keyCtx"
  shows "Compare K k keyCtx k kext kext = 0"
  using Compare_flip [OF assms, of k k kext kext] by simp

lemma Compare_le_le:
  "Compare_transitive K keyCtx \<Longrightarrow> Compare K k keyCtx l kext lext \<le> 0 \<Longrightarrow>
    Compare K l keyCtx m lext mext \<le> 0 \<Longrightarrow> Compare K k keyCtx m kext mext \<le> 0"
  unfolding Compare_transitive_def by blast

lemma Compare_lt_le:
  assumes A: "Compare_antisymmetric K keyCtx" and T: "Compare_transitive K keyCtx"
    and kl: "Compare K k keyCtx l kext lext < 0" and lm: "Compare K l keyCtx m lext mext \<le> 0"
  shows "Compare K k keyCtx m kext mext < 0"
proof (rule ccontr)
  assume "\<not> Compare K k keyCtx m kext mext < 0"
  then have "Compare K m keyCtx k mext kext \<le> 0"
    using Compare_flip [OF A, of m k mext kext] by simp
  with lm have "Compare K l keyCtx k lext kext \<le> 0"
    by (rule Compare_le_le [OF T])
  then show False
    using kl Compare_flip [OF A, of l k lext kext] by simp
qed

lemma Compare_le_lt:
  assumes A: "Compare_antisymmetric K keyCtx" and T: "Compare_transitive K keyCtx"
    and kl: "Compare K k keyCtx l kext lext \<le> 0" and lm: "Compare K l keyCtx m lext mext < 0"
  shows "Compare K k keyCtx m kext mext < 0"
proof (rule ccontr)
  assume "\<not> Compare K k keyCtx m kext mext < 0"
  then have "Compare K m keyCtx k mext kext \<le> 0"
    using Compare_flip [OF A, of m k mext kext] by simp
  then have "Compare K m keyCtx l mext lext \<le> 0"
    using kl by (rule Compare_le_le [OF T])
  then show False
    using lm Compare_flip [OF A, of m l mext lext] by simp
qed

lemma CompareStarts_flip:
  "Compare_antisymmetric K keyCtx \<Longrightarrow> CompareStarts K b keyCtx a = - CompareStarts K a keyCtx b"
  unfolding CompareStarts_def by (rule Compare_flip)

lemma CompareEnds_flip:
  "Compare_antisymmetric K keyCtx \<Longrightarrow> CompareEnds K b keyCtx a = - CompareEnds K a keyCtx b"
  unfolding CompareEnds_def by (rule Compare_flip)

text \<open>
  The spans that the specification's notions pick are the larger and the smaller ones: the
  start of \<open>larger_start\<close> is at or after both starts, and so on.
\<close>

lemma larger_start_bounds:
  assumes A: "Compare_antisymmetric K keyCtx"
  shows "CompareStarts K (larger_start K keyCtx a b) keyCtx a \<ge> 0
    \<and> CompareStarts K (larger_start K keyCtx a b) keyCtx b \<ge> 0"
  using CompareStarts_flip [OF A, of b a]
  by (simp add: larger_start_def) (simp add: CompareStarts_def Compare_refl [OF A])

lemma smaller_start_bounds:
  assumes A: "Compare_antisymmetric K keyCtx"
  shows "CompareStarts K (smaller_start K keyCtx a b) keyCtx a \<le> 0
    \<and> CompareStarts K (smaller_start K keyCtx a b) keyCtx b \<le> 0"
  using CompareStarts_flip [OF A, of b a]
  by (simp add: smaller_start_def) (simp add: CompareStarts_def Compare_refl [OF A])

lemma smaller_end_bounds:
  assumes A: "Compare_antisymmetric K keyCtx"
  shows "CompareEnds K (smaller_end K keyCtx a b) keyCtx a \<le> 0
    \<and> CompareEnds K (smaller_end K keyCtx a b) keyCtx b \<le> 0"
  using CompareEnds_flip [OF A, of b a]
  by (simp add: smaller_end_def) (simp add: CompareEnds_def Compare_refl [OF A])

lemma larger_end_bounds:
  assumes A: "Compare_antisymmetric K keyCtx"
  shows "CompareEnds K (larger_end K keyCtx a b) keyCtx a \<ge> 0
    \<and> CompareEnds K (larger_end K keyCtx a b) keyCtx b \<ge> 0"
  using CompareEnds_flip [OF A, of b a]
  by (simp add: larger_end_def) (simp add: CompareEnds_def Compare_refl [OF A])

section \<open>The methods, case by case\<close>

lemma Set_assign_eq:
  "Set_assign K sp keyCtx s sb e eb =
    (if Compare K s keyCtx e (start_extension sb) (end_extension eb) \<ge> 0
     then (Inl (Panic ''span cannot be empty''), Set_target sp s sb e eb)
     else (Inr (), Set_target sp s sb e eb))"
  by (simp add: Set_assign_def Set_target_def startExt_def endExt_def start_extension_def
      end_extension_def IncludeBoundary_def ExtendLow_def ExtendHigh_def Let_def)

lemma Set_eq:
  "Set K sp keyCtx s sb e eb =
    (if Set_malformed K sp s sb e eb
     then (Inl (Panic (if immutable sp then ''mutation disallowed''
                       else if IsEmpty K s \<and> IsEmpty K e
                         then ''unconstrained span should never be used''
                       else if IsEmpty K s then ''an empty start boundary must be inclusive''
                       else ''an empty end boundary must be inclusive'')), sp)
     else Set_assign K sp keyCtx s sb e eb)"
  by (simp add: Set_def Set_malformed_def)

lemma TryIntersectWith_unfold:
  "\<not> immutable a \<Longrightarrow> TryIntersectWith K a keyCtx b =
    (if intersect_fails K keyCtx a b then (Inr False, a)
     else (Inr True,
       intersect_update (CompareStarts K a keyCtx b) (CompareEnds K a keyCtx b) a b))"
  by (auto simp: TryIntersectWith_def intersect_fails_def Let_def)

lemma intersect_update_eq:
  "intersect_update (CompareStarts K a keyCtx b) (CompareEnds K a keyCtx b) a b
    = intersection_of K keyCtx a b"
  by (simp add: intersect_update_def intersection_of_def larger_start_def smaller_end_def
      Let_def)

lemma union_update_eq:
  "union_update (CompareStarts K a keyCtx b) (CompareEnds K a keyCtx b) a b
    = union_of K keyCtx a b"
  by (simp add: union_update_def union_of_def smaller_start_def larger_end_def Let_def)

lemma Span_valid_Copy: "Span_valid K keyCtx (Copy a) = Span_valid K keyCtx a"
  by (simp add: Span_valid_def Copy_def startExt_def endExt_def)

lemma intersect_fails_Copy: "intersect_fails K keyCtx (Copy a) b = intersect_fails K keyCtx a b"
  by (simp add: intersect_fails_def Copy_def CompareStarts_def CompareEnds_def
      startExt_def endExt_def)

lemma intersection_empty_iff:
  assumes A: "Compare_antisymmetric K keyCtx" and T: "Compare_transitive K keyCtx"
    and va: "Span_valid K keyCtx a" and vb: "Span_valid K keyCtx b"
  shows "intersection_empty K keyCtx a b \<longleftrightarrow> intersect_fails K keyCtx a b"
proof -
  let ?sa = "start a" and ?sb = "start b" and ?ea = "end' a" and ?eb = "end' b"
  let ?xa = "startExt a" and ?xb = "startExt b" and ?ya = "endExt a" and ?yb = "endExt b"
  have a_lt: "Compare K ?sa keyCtx ?ea ?xa ?ya < 0"
    using va by (simp add: Span_valid_def)
  have b_lt: "Compare K ?sb keyCtx ?eb ?xb ?yb < 0"
    using vb by (simp add: Span_valid_def)
  have flip_se: "Compare K ?ea keyCtx ?sb ?ya ?xb = - Compare K ?sb keyCtx ?ea ?xb ?ya"
    by (rule Compare_flip [OF A])
  have flip_ss: "Compare K ?sb keyCtx ?sa ?xb ?xa = - Compare K ?sa keyCtx ?sb ?xa ?xb"
    by (rule Compare_flip [OF A])
  have flip_ee: "Compare K ?eb keyCtx ?ea ?yb ?ya = - Compare K ?ea keyCtx ?eb ?ya ?yb"
    by (rule Compare_flip [OF A])
  consider (gt_lt) "CompareStarts K a keyCtx b > 0" "CompareEnds K a keyCtx b < 0"
    | (gt_eq) "CompareStarts K a keyCtx b > 0" "CompareEnds K a keyCtx b = 0"
    | (gt_gt) "CompareStarts K a keyCtx b > 0" "CompareEnds K a keyCtx b > 0"
    | (eq_le) "CompareStarts K a keyCtx b = 0" "CompareEnds K a keyCtx b \<le> 0"
    | (eq_gt) "CompareStarts K a keyCtx b = 0" "CompareEnds K a keyCtx b > 0"
    | (lt_lt) "CompareStarts K a keyCtx b < 0" "CompareEnds K a keyCtx b < 0"
    | (lt_eq) "CompareStarts K a keyCtx b < 0" "CompareEnds K a keyCtx b = 0"
    | (lt_gt) "CompareStarts K a keyCtx b < 0" "CompareEnds K a keyCtx b > 0"
    by linarith
  then show ?thesis
  proof cases
    case gt_lt
    have "Compare K ?sa keyCtx ?eb ?xa ?yb < 0"
      using Compare_lt_le [OF A T a_lt, of ?eb ?yb] gt_lt(2) by (simp add: CompareEnds_def)
    moreover have "Compare K ?sb keyCtx ?ea ?xb ?ya < 0"
      using Compare_le_lt [OF A T _ a_lt, of ?sb ?xb] gt_lt(1) flip_ss
      by (simp add: CompareStarts_def)
    ultimately show ?thesis
      using gt_lt a_lt flip_se
      by (simp add: intersection_empty_def intersect_fails_def larger_start_def
          smaller_end_def)
  next
    case gt_eq
    have "Compare K ?sa keyCtx ?eb ?xa ?yb < 0"
      using Compare_lt_le [OF A T a_lt, of ?eb ?yb] gt_eq(2) by (simp add: CompareEnds_def)
    then show ?thesis
      using gt_eq a_lt
      by (simp add: intersection_empty_def intersect_fails_def larger_start_def
          smaller_end_def)
  next
    case gt_gt
    then show ?thesis
      by (simp add: intersection_empty_def intersect_fails_def larger_start_def
          smaller_end_def)
  next
    case eq_le
    have "Compare K ?sb keyCtx ?ea ?xb ?ya < 0"
      using Compare_le_lt [OF A T _ a_lt, of ?sb ?xb] eq_le(1) flip_ss
      by (simp add: CompareStarts_def)
    then show ?thesis
      using eq_le a_lt flip_se
      by (simp add: intersection_empty_def intersect_fails_def larger_start_def
          smaller_end_def)
  next
    case eq_gt
    have "Compare K ?sa keyCtx ?eb ?xa ?yb < 0"
      using Compare_le_lt [OF A T _ b_lt, of ?sa ?xa] eq_gt(1)
      by (simp add: CompareStarts_def)
    then show ?thesis
      using eq_gt
      by (simp add: intersection_empty_def intersect_fails_def larger_start_def
          smaller_end_def)
  next
    case lt_lt
    then show ?thesis
      using flip_se
      by (simp add: intersection_empty_def intersect_fails_def larger_start_def
          smaller_end_def)
  next
    case lt_eq
    have "Compare K ?sb keyCtx ?ea ?xb ?ya < 0"
      using Compare_lt_le [OF A T b_lt, of ?ea ?ya] lt_eq(2) flip_ee
      by (simp add: CompareEnds_def)
    then show ?thesis
      using lt_eq
      by (simp add: intersection_empty_def intersect_fails_def larger_start_def
          smaller_end_def)
  next
    case lt_gt
    then show ?thesis
      using b_lt
      by (simp add: intersection_empty_def intersect_fails_def larger_start_def
          smaller_end_def)
  qed
qed

lemma contained_not_fails:
  assumes A: "Compare_antisymmetric K keyCtx" and T: "Compare_transitive K keyCtx"
    and va: "Span_valid K keyCtx a"
    and cs: "CompareStarts K a keyCtx b \<ge> 0" and ce: "CompareEnds K a keyCtx b \<le> 0"
  shows "\<not> intersect_fails K keyCtx a b"
proof -
  have a_lt: "Compare K (start a) keyCtx (end' a) (startExt a) (endExt a) < 0"
    using va by (simp add: Span_valid_def)
  have "Compare K (start a) keyCtx (end' b) (startExt a) (endExt b) < 0"
    using Compare_lt_le [OF A T a_lt, of "end' b" "endExt b"] ce
    by (simp add: CompareEnds_def)
  moreover have "Compare K (start b) keyCtx (end' a) (startExt b) (endExt a) < 0"
    using Compare_le_lt [OF A T _ a_lt, of "start b" "startExt b"] cs
      Compare_flip [OF A, of "start a" "start b" "startExt a" "startExt b"]
    by (simp add: CompareStarts_def)
  ultimately show ?thesis
    using Compare_flip [OF A, of "start b" "end' a" "startExt b" "endExt a"]
    by (simp add: intersect_fails_def)
qed

lemma intersect_fails_sym:
  assumes A: "Compare_antisymmetric K keyCtx" and T: "Compare_transitive K keyCtx"
    and va: "Span_valid K keyCtx a" and vb: "Span_valid K keyCtx b"
    and f: "intersect_fails K keyCtx a b"
  shows "intersect_fails K keyCtx b a"
proof -
  let ?sa = "start a" and ?sb = "start b" and ?ea = "end' a" and ?eb = "end' b"
  let ?xa = "startExt a" and ?xb = "startExt b" and ?ya = "endExt a" and ?yb = "endExt b"
  have a_lt: "Compare K ?sa keyCtx ?ea ?xa ?ya < 0"
    using va by (simp add: Span_valid_def)
  have flip_se: "Compare K ?ea keyCtx ?sb ?ya ?xb = - Compare K ?sb keyCtx ?ea ?xb ?ya"
    by (rule Compare_flip [OF A])
  have flip_es: "Compare K ?eb keyCtx ?sa ?yb ?xa = - Compare K ?sa keyCtx ?eb ?xa ?yb"
    by (rule Compare_flip [OF A])
  have flip_ss: "Compare K ?sb keyCtx ?sa ?xb ?xa = - Compare K ?sa keyCtx ?sb ?xa ?xb"
    by (rule Compare_flip [OF A])
  from f consider
    (starts) "Compare K ?sa keyCtx ?eb ?xa ?yb \<ge> 0"
    | (ends) "Compare K ?ea keyCtx ?sb ?ya ?xb \<le> 0"
    by (auto simp: intersect_fails_def)
  then show ?thesis
  proof cases
    case starts
    then have "Compare K ?eb keyCtx ?sa ?yb ?xa \<le> 0"
      using flip_es by simp
    then have "Compare K ?eb keyCtx ?ea ?yb ?ya < 0"
      using a_lt by (rule Compare_le_lt [OF A T])
    with starts show ?thesis
      using flip_es by (simp add: intersect_fails_def CompareEnds_def)
  next
    case ends
    with a_lt have "Compare K ?sa keyCtx ?sb ?xa ?xb < 0"
      by (rule Compare_lt_le [OF A T])
    with ends show ?thesis
      using flip_ss flip_se by (simp add: intersect_fails_def CompareStarts_def)
  qed
qed

lemma SpanCompare_flip:
  assumes A: "Compare_antisymmetric K keyCtx"
  shows "SpanCompare K a keyCtx b = - SpanCompare K b keyCtx a"
  using CompareStarts_flip [OF A, of a b] CompareEnds_flip [OF A, of a b]
  by (simp add: SpanCompare_def Let_def)

lemma SpanCompare_le_iff:
  "SpanCompare K a keyCtx b \<le> 0 \<longleftrightarrow>
    CompareStarts K a keyCtx b < 0 \<or>
    (CompareStarts K a keyCtx b = 0 \<and> CompareEnds K a keyCtx b \<le> 0)"
  by (auto simp: SpanCompare_def Let_def)

lemma SpanCompare_zero_iff:
  "SpanCompare K a keyCtx b = 0 \<longleftrightarrow>
    CompareStarts K a keyCtx b = 0 \<and> CompareEnds K a keyCtx b = 0"
  by (auto simp: SpanCompare_def Let_def)

lemma SpanCompare_trans:
  assumes A: "Compare_antisymmetric K keyCtx" and T: "Compare_transitive K keyCtx"
    and ab: "SpanCompare K a keyCtx b \<le> 0" and bc: "SpanCompare K b keyCtx c \<le> 0"
  shows "SpanCompare K a keyCtx c \<le> 0"
proof -
  let ?s = "\<lambda>x y. Compare K (start x) keyCtx (start y) (startExt x) (startExt y)"
  let ?e = "\<lambda>x y. Compare K (end' x) keyCtx (end' y) (endExt x) (endExt y)"
  from ab have ab': "?s a b < 0 \<or> (?s a b = 0 \<and> ?e a b \<le> 0)"
    by (simp add: SpanCompare_le_iff CompareStarts_def CompareEnds_def)
  from bc have bc': "?s b c < 0 \<or> (?s b c = 0 \<and> ?e b c \<le> 0)"
    by (simp add: SpanCompare_le_iff CompareStarts_def CompareEnds_def)
  have lt_le: "?s a b < 0 \<Longrightarrow> ?s b c \<le> 0 \<Longrightarrow> ?s a c < 0"
    by (rule Compare_lt_le [OF A T])
  have le_lt: "?s a b \<le> 0 \<Longrightarrow> ?s b c < 0 \<Longrightarrow> ?s a c < 0"
    by (rule Compare_le_lt [OF A T])
  have le_le: "?s a b \<le> 0 \<Longrightarrow> ?s b c \<le> 0 \<Longrightarrow> ?s a c \<le> 0"
    by (rule Compare_le_le [OF T])
  have ge_ge: "?s a b = 0 \<Longrightarrow> ?s b c = 0 \<Longrightarrow> ?s c a \<le> 0"
    using Compare_le_le [OF T, of "start c" "start b" "startExt c" "startExt b"
        "start a" "startExt a"]
      Compare_flip [OF A, of "start b" "start c" "startExt b" "startExt c"]
      Compare_flip [OF A, of "start a" "start b" "startExt a" "startExt b"]
    by simp
  have e_le: "?e a b \<le> 0 \<Longrightarrow> ?e b c \<le> 0 \<Longrightarrow> ?e a c \<le> 0"
    by (rule Compare_le_le [OF T])
  have flip: "?s c a = - ?s a c"
    by (rule Compare_flip [OF A])
  have "?s a c < 0 \<or> (?s a c = 0 \<and> ?e a c \<le> 0)"
    using ab' bc' lt_le le_lt le_le ge_ge e_le flip by fastforce
  then show ?thesis
    by (simp add: SpanCompare_le_iff CompareStarts_def CompareEnds_def)
qed

section \<open>Set\<close>

text \<open>
  C1 (as the code has it): a call of \<^verbatim>\<open>Set\<close> that panics because the span is frozen,
  because both bounds are empty, or because an empty bound is exclusive leaves the span
  exactly as it was. The last check, that the start precedes the end, is made on the fields
  of the span after the four arguments have been assigned to them: a call that passes the
  earlier checks and panics there ("span cannot be empty") leaves the span with start,
  startBoundary, end and endBoundary set to the arguments.
\<close>

theorem Set_panic_state:
  "(Set_malformed K sp s sb e eb \<longrightarrow>
      isl (fst (Set K sp keyCtx s sb e eb)) \<and> snd (Set K sp keyCtx s sb e eb) = sp)
   \<and> (\<not> Set_malformed K sp s sb e eb \<and> isl (fst (Set K sp keyCtx s sb e eb)) \<longrightarrow>
      Compare K s keyCtx e (start_extension sb) (end_extension eb) \<ge> 0
      \<and> fst (Set K sp keyCtx s sb e eb) = Inl (Panic ''span cannot be empty'')
      \<and> snd (Set K sp keyCtx s sb e eb) = Set_target sp s sb e eb)"
  by (simp add: Set_eq Set_assign_eq)

theorem Set_panic_state_witness:
  "Set_malformed IntKey
      \<lparr>start = [1], end' = [5], startBoundary = IncludeBoundary,
        endBoundary = IncludeBoundary, immutable = False\<rparr>
      [] ExcludeBoundary [7] IncludeBoundary
   \<and> snd (Set IntKey
      \<lparr>start = [1], end' = [5], startBoundary = IncludeBoundary,
        endBoundary = IncludeBoundary, immutable = False\<rparr> ()
      [] ExcludeBoundary [7] IncludeBoundary)
     = \<lparr>start = [1], end' = [5], startBoundary = IncludeBoundary,
        endBoundary = IncludeBoundary, immutable = False\<rparr>"
proof -
  let ?sp = "\<lparr>start = [1::int], end' = [5], startBoundary = IncludeBoundary,
        endBoundary = IncludeBoundary, immutable = False\<rparr>"
  have m: "Set_malformed IntKey ?sp [] ExcludeBoundary [7] IncludeBoundary"
    by (simp add: Set_malformed_def IntKey_def)
  with Set_panic_state [of IntKey ?sp "[]" ExcludeBoundary "[7]" IncludeBoundary "()"]
  show ?thesis by blast
qed

text \<open>
  C1 as stated fails: on the unconstrained span, \<^verbatim>\<open>Set(start=10, end=5)\<close> panics with
  "span cannot be empty" and leaves the span holding the bounds 10 and 5.
\<close>

theorem Set_panic_after_write:
  "Set IntKey
      \<lparr>start = [], end' = [], startBoundary = IncludeBoundary,
        endBoundary = IncludeBoundary, immutable = False\<rparr> ()
      [10] IncludeBoundary [5] IncludeBoundary
    = (Inl (Panic ''span cannot be empty''),
       \<lparr>start = [10], end' = [5], startBoundary = IncludeBoundary,
         endBoundary = IncludeBoundary, immutable = False\<rparr>)
   \<and> start (snd (Set IntKey
      \<lparr>start = [], end' = [], startBoundary = IncludeBoundary,
        endBoundary = IncludeBoundary, immutable = False\<rparr> ()
      [10] IncludeBoundary [5] IncludeBoundary)) \<noteq> []"
  by (simp add: Set_def Set_assign_def IntKey_eval)

text \<open>
  C5: \<^verbatim>\<open>Set\<close> panics exactly when the span is frozen, or both keys are empty, or the
  start key is empty with an exclusive boundary, or the end key is empty with an exclusive
  boundary, or the start is at or after the end as extended keys. When it does not panic,
  the span has the four arguments as its bounds and satisfies I1 to I3.
\<close>

theorem Set_panics_iff:
  "(isl (fst (Set K sp keyCtx s sb e eb)) \<longleftrightarrow>
      immutable sp \<or> (IsEmpty K s \<and> IsEmpty K e) \<or>
      (IsEmpty K s \<and> sb = ExcludeBoundary) \<or> (IsEmpty K e \<and> eb = ExcludeBoundary) \<or>
      Compare K s keyCtx e (start_extension sb) (end_extension eb) \<ge> 0)
   \<and> (\<not> isl (fst (Set K sp keyCtx s sb e eb)) \<longrightarrow>
      snd (Set K sp keyCtx s sb e eb) = Set_target sp s sb e eb
      \<and> Span_valid K keyCtx (snd (Set K sp keyCtx s sb e eb)))"
proof -
  have ext: "startExt (Set_target sp s sb e eb) = start_extension sb"
      "endExt (Set_target sp s sb e eb) = end_extension eb"
    by (simp_all add: Set_target_def startExt_def endExt_def start_extension_def
        end_extension_def IncludeBoundary_def ExtendLow_def ExtendHigh_def)
  have valid: "\<not> Set_malformed K sp s sb e eb \<Longrightarrow>
      Compare K s keyCtx e (start_extension sb) (end_extension eb) < 0 \<Longrightarrow>
      Span_valid K keyCtx (Set_target sp s sb e eb)"
    unfolding Span_valid_def ext
    by (auto simp: Set_target_def Set_malformed_def IncludeBoundary_def ExcludeBoundary_def)
  show ?thesis
    using valid
    by (auto simp: Set_eq Set_assign_eq Set_malformed_def)
qed

theorem Set_panics_iff_witness:
  "isl (fst (Set IntKey
      \<lparr>start = [], end' = [], startBoundary = IncludeBoundary,
        endBoundary = IncludeBoundary, immutable = False\<rparr> ()
      [10] IncludeBoundary [5] IncludeBoundary))
   \<and> isl (fst (Set IntKey
      \<lparr>start = [], end' = [], startBoundary = IncludeBoundary,
        endBoundary = IncludeBoundary, immutable = False\<rparr> ()
      [] IncludeBoundary [] IncludeBoundary))
   \<and> isl (fst (Set IntKey
      \<lparr>start = [], end' = [], startBoundary = IncludeBoundary,
        endBoundary = IncludeBoundary, immutable = False\<rparr> ()
      [] ExcludeBoundary [5] IncludeBoundary))
   \<and> Span_valid IntKey () (snd (Set IntKey
      \<lparr>start = [], end' = [], startBoundary = IncludeBoundary,
        endBoundary = IncludeBoundary, immutable = False\<rparr> ()
      [1] IncludeBoundary [5] ExcludeBoundary))
   \<and> snd (Set IntKey
      \<lparr>start = [], end' = [], startBoundary = IncludeBoundary,
        endBoundary = IncludeBoundary, immutable = False\<rparr> ()
      [1] IncludeBoundary [5] ExcludeBoundary)
     = \<lparr>start = [1], end' = [5], startBoundary = IncludeBoundary,
        endBoundary = ExcludeBoundary, immutable = False\<rparr>"
proof -
  let ?sp = "\<lparr>start = [] :: int list, end' = [], startBoundary = IncludeBoundary,
        endBoundary = IncludeBoundary, immutable = False\<rparr>"
  have "Compare IntKey [10] () [5] (start_extension IncludeBoundary)
      (end_extension IncludeBoundary) \<ge> 0"
    by (simp add: IntKey_def)
  then have p1: "isl (fst (Set IntKey ?sp () [10] IncludeBoundary [5] IncludeBoundary))"
    using Set_panics_iff [of IntKey ?sp "()" "[10]" IncludeBoundary "[5]" IncludeBoundary]
    by blast
  have e: "IsEmpty IntKey []"
    by (simp add: IntKey_def)
  then have p2: "isl (fst (Set IntKey ?sp () [] IncludeBoundary [] IncludeBoundary))"
    using Set_panics_iff [of IntKey ?sp "()" "[]" IncludeBoundary "[]" IncludeBoundary]
    by blast
  have p3: "isl (fst (Set IntKey ?sp () [] ExcludeBoundary [5] IncludeBoundary))"
    using e Set_panics_iff [of IntKey ?sp "()" "[]" ExcludeBoundary "[5]" IncludeBoundary]
    by blast
  have "\<not> (immutable ?sp \<or> (IsEmpty IntKey [1] \<and> IsEmpty IntKey [5]) \<or>
      (IsEmpty IntKey [1] \<and> IncludeBoundary = ExcludeBoundary) \<or>
      (IsEmpty IntKey [5] \<and> ExcludeBoundary = ExcludeBoundary) \<or>
      Compare IntKey [1] () [5] (start_extension IncludeBoundary)
        (end_extension ExcludeBoundary) \<ge> 0)"
    by (simp add: IntKey_eval start_extension_def end_extension_def)
  then have p4: "snd (Set IntKey ?sp () [1] IncludeBoundary [5] ExcludeBoundary)
        = Set_target ?sp [1] IncludeBoundary [5] ExcludeBoundary
      \<and> Span_valid IntKey () (snd (Set IntKey ?sp () [1] IncludeBoundary [5] ExcludeBoundary))"
    using Set_panics_iff [of IntKey ?sp "()" "[1]" IncludeBoundary "[5]" ExcludeBoundary]
    by blast
  from p4 have p5: "snd (Set IntKey ?sp () [1] IncludeBoundary [5] ExcludeBoundary)
      = \<lparr>start = [1], end' = [5], startBoundary = IncludeBoundary,
          endBoundary = ExcludeBoundary, immutable = False\<rparr>"
    by (simp add: Set_target_def)
  show ?thesis
    using p1 p2 p3 p4 p5 by blast
qed

section \<open>Frozen spans\<close>

text \<open>
  C2: on a span that \<^verbatim>\<open>makeImmutable\<close> has frozen, each of \<^verbatim>\<open>Set\<close>,
  \<^verbatim>\<open>TryIntersectWith\<close>, \<^verbatim>\<open>TryUnionWith\<close> and \<^verbatim>\<open>PreferInclusive\<close> panics
  ("mutation disallowed"), whatever its arguments, and the span it leaves behind is the
  frozen span itself: start, startBoundary, end and endBoundary (and the flag) are
  unchanged.
\<close>

theorem frozen_span_rejects_mutation:
  "Set K (makeImmutable sp) keyCtx s sb e eb
      = (Inl (Panic ''mutation disallowed''), makeImmutable sp)
   \<and> TryIntersectWith K (makeImmutable sp) keyCtx other
      = (Inl (Panic ''mutation disallowed''), makeImmutable sp)
   \<and> TryUnionWith K (makeImmutable sp) keyCtx other
      = (Inl (Panic ''mutation disallowed''), makeImmutable sp)
   \<and> PreferInclusive K (makeImmutable sp) keyCtx
      = (Inl (Panic ''mutation disallowed''), makeImmutable sp)"
  by (simp add: Set_def TryIntersectWith_def TryUnionWith_def PreferInclusive_def
      makeImmutable_def)

section \<open>The extension of a boundary\<close>

text \<open>
  C6: the extension used in every comparison is ExtendLow for an inclusive start and
  ExtendHigh for an exclusive start, ExtendHigh for an inclusive end and ExtendLow for an
  exclusive end. So, when the key comparison orders ExtendLow before ExtendHigh on equal
  keys: of two spans that start at the same key, the one with the inclusive start compares
  strictly before the one with the exclusive start (\<^verbatim>\<open>CompareStarts\<close>), and of two spans
  that end at the same key, the one with the exclusive end compares strictly before the
  one with the inclusive end (\<^verbatim>\<open>CompareEnds\<close>).
\<close>

theorem boundary_extension:
  "startExt sp = (if startBoundary sp = IncludeBoundary then ExtendLow else ExtendHigh)
   \<and> endExt sp = (if endBoundary sp = IncludeBoundary then ExtendHigh else ExtendLow)
   \<and> (Compare_low_before_high K keyCtx \<and> start a = start b \<and>
        startBoundary a = IncludeBoundary \<and> startBoundary b = ExcludeBoundary
        \<longrightarrow> CompareStarts K a keyCtx b < 0)
   \<and> (Compare_low_before_high K keyCtx \<and> end' a = end' b \<and>
        endBoundary a = ExcludeBoundary \<and> endBoundary b = IncludeBoundary
        \<longrightarrow> CompareEnds K a keyCtx b < 0)"
proof (intro conjI impI)
  show "startExt sp = (if startBoundary sp = IncludeBoundary then ExtendLow else ExtendHigh)"
    by (simp add: startExt_def IncludeBoundary_def ExtendLow_def ExtendHigh_def)
next
  show "endExt sp = (if endBoundary sp = IncludeBoundary then ExtendHigh else ExtendLow)"
    by (simp add: endExt_def IncludeBoundary_def ExtendLow_def ExtendHigh_def)
next
  assume h: "Compare_low_before_high K keyCtx \<and> start a = start b \<and>
        startBoundary a = IncludeBoundary \<and> startBoundary b = ExcludeBoundary"
  then have "startExt a = ExtendLow" and "startExt b = ExtendHigh"
    by (simp_all add: startExt_def IncludeBoundary_def ExcludeBoundary_def ExtendLow_def
        ExtendHigh_def)
  with h show "CompareStarts K a keyCtx b < 0"
    by (simp add: CompareStarts_def Compare_low_before_high_def)
next
  assume h: "Compare_low_before_high K keyCtx \<and> end' a = end' b \<and>
        endBoundary a = ExcludeBoundary \<and> endBoundary b = IncludeBoundary"
  then have "endExt a = ExtendLow" and "endExt b = ExtendHigh"
    by (simp_all add: endExt_def IncludeBoundary_def ExcludeBoundary_def ExtendLow_def
        ExtendHigh_def)
  with h show "CompareEnds K a keyCtx b < 0"
    by (simp add: CompareEnds_def Compare_low_before_high_def)
qed

theorem boundary_extension_witness:
  "CompareStarts IntKey
      \<lparr>start = [3], end' = [9], startBoundary = IncludeBoundary,
        endBoundary = IncludeBoundary, immutable = False\<rparr> ()
      \<lparr>start = [3], end' = [9], startBoundary = ExcludeBoundary,
        endBoundary = IncludeBoundary, immutable = False\<rparr> < 0
   \<and> CompareEnds IntKey
      \<lparr>start = [3], end' = [9], startBoundary = IncludeBoundary,
        endBoundary = ExcludeBoundary, immutable = False\<rparr> ()
      \<lparr>start = [3], end' = [9], startBoundary = IncludeBoundary,
        endBoundary = IncludeBoundary, immutable = False\<rparr> < 0"
proof -
  let ?ii = "\<lparr>start = [3::int], end' = [9], startBoundary = IncludeBoundary,
        endBoundary = IncludeBoundary, immutable = False\<rparr>"
  let ?ei = "\<lparr>start = [3::int], end' = [9], startBoundary = ExcludeBoundary,
        endBoundary = IncludeBoundary, immutable = False\<rparr>"
  let ?ie = "\<lparr>start = [3::int], end' = [9], startBoundary = IncludeBoundary,
        endBoundary = ExcludeBoundary, immutable = False\<rparr>"
  have "CompareStarts IntKey ?ii () ?ei < 0"
    using boundary_extension [of ?ii IntKey "()" ?ii ?ei] IntKey_low_before_high [of "()"]
    by simp
  moreover have "CompareEnds IntKey ?ie () ?ii < 0"
    using boundary_extension [of ?ii IntKey "()" ?ie ?ii] IntKey_low_before_high [of "()"]
    by simp
  ultimately show ?thesis by blast
qed

section \<open>The order of spans\<close>

text \<open>
  C7: under a key context for which the key comparison is a total order (swapping the
  sides negates it, and "at most" is transitive), \<^verbatim>\<open>Span.Compare\<close> is a total order on
  spans: \<open>Compare(A, B) = - Compare(B, A)\<close>; if \<open>Compare(A, B) \<le> 0\<close> and
  \<open>Compare(B, C) \<le> 0\<close> then \<open>Compare(A, C) \<le> 0\<close>; and it returns 0 exactly when
  \<^verbatim>\<open>CompareStarts\<close> and \<^verbatim>\<open>CompareEnds\<close> both return 0.
\<close>

theorem SpanCompare_total_order:
  assumes "Compare_antisymmetric K keyCtx" and "Compare_transitive K keyCtx"
  shows "SpanCompare K a keyCtx b = - SpanCompare K b keyCtx a
    \<and> (SpanCompare K a keyCtx b \<le> 0 \<and> SpanCompare K b keyCtx c \<le> 0
        \<longrightarrow> SpanCompare K a keyCtx c \<le> 0)
    \<and> (SpanCompare K a keyCtx b = 0
        \<longleftrightarrow> CompareStarts K a keyCtx b = 0 \<and> CompareEnds K a keyCtx b = 0)"
proof (intro conjI impI)
  show "SpanCompare K a keyCtx b = - SpanCompare K b keyCtx a"
    by (rule SpanCompare_flip [OF assms(1)])
next
  assume "SpanCompare K a keyCtx b \<le> 0 \<and> SpanCompare K b keyCtx c \<le> 0"
  then show "SpanCompare K a keyCtx c \<le> 0"
    using SpanCompare_trans [OF assms] by blast
next
  show "SpanCompare K a keyCtx b = 0
    \<longleftrightarrow> CompareStarts K a keyCtx b = 0 \<and> CompareEnds K a keyCtx b = 0"
    by (rule SpanCompare_zero_iff)
qed

theorem SpanCompare_total_order_witness:
  "SpanCompare IntKey
      \<lparr>start = [], end' = [2], startBoundary = IncludeBoundary,
        endBoundary = ExcludeBoundary, immutable = False\<rparr> ()
      \<lparr>start = [1], end' = [2, 1], startBoundary = IncludeBoundary,
        endBoundary = IncludeBoundary, immutable = False\<rparr> \<le> 0
   \<and> SpanCompare IntKey
      \<lparr>start = [1], end' = [2, 1], startBoundary = IncludeBoundary,
        endBoundary = IncludeBoundary, immutable = False\<rparr> ()
      \<lparr>start = [1], end' = [], startBoundary = ExcludeBoundary,
        endBoundary = IncludeBoundary, immutable = False\<rparr> \<le> 0
   \<and> SpanCompare IntKey
      \<lparr>start = [], end' = [2], startBoundary = IncludeBoundary,
        endBoundary = ExcludeBoundary, immutable = False\<rparr> ()
      \<lparr>start = [1], end' = [], startBoundary = ExcludeBoundary,
        endBoundary = IncludeBoundary, immutable = False\<rparr> \<le> 0"
proof -
  let ?a = "\<lparr>start = [] :: int list, end' = [2], startBoundary = IncludeBoundary,
        endBoundary = ExcludeBoundary, immutable = False\<rparr>"
  let ?b = "\<lparr>start = [1::int], end' = [2, 1], startBoundary = IncludeBoundary,
        endBoundary = IncludeBoundary, immutable = False\<rparr>"
  let ?c = "\<lparr>start = [1::int], end' = [], startBoundary = ExcludeBoundary,
        endBoundary = IncludeBoundary, immutable = False\<rparr>"
  have ab: "SpanCompare IntKey ?a () ?b \<le> 0"
    by (simp add: SpanCompare_def IntKey_eval)
  have bc: "SpanCompare IntKey ?b () ?c \<le> 0"
    by (simp add: SpanCompare_def IntKey_eval)
  have "SpanCompare IntKey ?a () ?c \<le> 0"
    using SpanCompare_total_order [OF IntKey_antisymmetric IntKey_transitive,
        of ?a "()" ?b ?c] ab bc
    by blast
  with ab bc show ?thesis by blast
qed

section \<open>Intersection\<close>

text \<open>
  C3: for a key comparison that is a total order, an unfrozen valid span \<open>a\<close> and a valid
  span \<open>b\<close>, \<^verbatim>\<open>TryIntersectWith\<close> returns false and leaves \<open>a\<close> unchanged exactly when the
  larger of the two starts is at or after the smaller of the two ends as extended keys;
  otherwise it returns true, and \<open>a\<close> has the larger of the two starts and the smaller of
  the two ends, each with its boundary.
\<close>

theorem TryIntersectWith_spec:
  assumes "Compare_antisymmetric K keyCtx" and "Compare_transitive K keyCtx"
    and "\<not> immutable a" and "Span_valid K keyCtx a" and "Span_valid K keyCtx b"
  shows "TryIntersectWith K a keyCtx b =
    (if intersection_empty K keyCtx a b then (Inr False, a)
     else (Inr True, intersection_of K keyCtx a b))"
  using intersection_empty_iff [OF assms(1,2,4,5)]
  by (simp add: TryIntersectWith_unfold [OF assms(3)] intersect_update_eq)

theorem TryIntersectWith_spec_witness:
  "TryIntersectWith IntKey
      \<lparr>start = [1], end' = [5], startBoundary = IncludeBoundary,
        endBoundary = IncludeBoundary, immutable = False\<rparr> ()
      \<lparr>start = [3], end' = [10], startBoundary = ExcludeBoundary,
        endBoundary = ExcludeBoundary, immutable = False\<rparr>
    = (Inr True,
      \<lparr>start = [3], end' = [5], startBoundary = ExcludeBoundary,
        endBoundary = IncludeBoundary, immutable = False\<rparr>)
   \<and> TryIntersectWith IntKey
      \<lparr>start = [1], end' = [5], startBoundary = IncludeBoundary,
        endBoundary = ExcludeBoundary, immutable = False\<rparr> ()
      \<lparr>start = [5], end' = [10], startBoundary = IncludeBoundary,
        endBoundary = IncludeBoundary, immutable = False\<rparr>
    = (Inr False,
      \<lparr>start = [1], end' = [5], startBoundary = IncludeBoundary,
        endBoundary = ExcludeBoundary, immutable = False\<rparr>)"
proof -
  let ?a = "\<lparr>start = [1::int], end' = [5], startBoundary = IncludeBoundary,
        endBoundary = IncludeBoundary, immutable = False\<rparr>"
  let ?b = "\<lparr>start = [3::int], end' = [10], startBoundary = ExcludeBoundary,
        endBoundary = ExcludeBoundary, immutable = False\<rparr>"
  let ?c = "\<lparr>start = [1::int], end' = [5], startBoundary = IncludeBoundary,
        endBoundary = ExcludeBoundary, immutable = False\<rparr>"
  let ?d = "\<lparr>start = [5::int], end' = [10], startBoundary = IncludeBoundary,
        endBoundary = IncludeBoundary, immutable = False\<rparr>"
  have v: "Span_valid IntKey () ?a" "Span_valid IntKey () ?b"
      "Span_valid IntKey () ?c" "Span_valid IntKey () ?d"
    by (simp_all add: Span_valid_def IntKey_eval)
  have n: "\<not> immutable ?a" "\<not> immutable ?c"
    by simp_all
  have "TryIntersectWith IntKey ?a () ?b =
      (if intersection_empty IntKey () ?a ?b then (Inr False, ?a)
       else (Inr True, intersection_of IntKey () ?a ?b))"
    by (rule TryIntersectWith_spec [OF IntKey_antisymmetric IntKey_transitive n(1) v(1,2)])
  moreover have "TryIntersectWith IntKey ?c () ?d =
      (if intersection_empty IntKey () ?c ?d then (Inr False, ?c)
       else (Inr True, intersection_of IntKey () ?c ?d))"
    by (rule TryIntersectWith_spec [OF IntKey_antisymmetric IntKey_transitive n(2) v(3,4)])
  ultimately show ?thesis
    by (simp add: intersection_empty_def intersection_of_def larger_start_def
        smaller_end_def IntKey_eval)
qed

text \<open>
  C10: for a key comparison that is a total order, an unfrozen valid span \<open>a\<close> and a valid
  span \<open>b\<close> that contains it (the start of \<open>a\<close> is at or after the start of \<open>b\<close>, the end of
  \<open>a\<close> is at or before the end of \<open>b\<close>, as extended keys), \<^verbatim>\<open>TryIntersectWith\<close> returns true
  and leaves \<open>a\<close> exactly as it was. Intersecting a span with a copy of itself returns true
  and leaves it as it was.
\<close>

theorem TryIntersectWith_contained:
  assumes "Compare_antisymmetric K keyCtx" and "Compare_transitive K keyCtx"
    and "\<not> immutable a" and "Span_valid K keyCtx a" and "Span_valid K keyCtx b"
  shows "(CompareStarts K a keyCtx b \<ge> 0 \<and> CompareEnds K a keyCtx b \<le> 0
          \<longrightarrow> TryIntersectWith K a keyCtx b = (Inr True, a))
    \<and> TryIntersectWith K a keyCtx (Copy a) = (Inr True, a)"
proof (intro conjI impI)
  assume c: "CompareStarts K a keyCtx b \<ge> 0 \<and> CompareEnds K a keyCtx b \<le> 0"
  then have "\<not> intersect_fails K keyCtx a b"
    using contained_not_fails [OF assms(1,2,4)] by blast
  with c show "TryIntersectWith K a keyCtx b = (Inr True, a)"
    by (simp add: TryIntersectWith_unfold [OF assms(3)] intersect_update_def)
next
  have s: "CompareStarts K a keyCtx (Copy a) = 0"
    by (simp add: CompareStarts_def Copy_def startExt_def Compare_refl [OF assms(1)])
  have e: "CompareEnds K a keyCtx (Copy a) = 0"
    by (simp add: CompareEnds_def Copy_def endExt_def Compare_refl [OF assms(1)])
  show "TryIntersectWith K a keyCtx (Copy a) = (Inr True, a)"
    by (simp add: TryIntersectWith_unfold [OF assms(3)] intersect_fails_def
        intersect_update_def s e)
qed

theorem TryIntersectWith_contained_witness:
  "TryIntersectWith IntKey
      \<lparr>start = [2], end' = [5], startBoundary = ExcludeBoundary,
        endBoundary = ExcludeBoundary, immutable = False\<rparr> ()
      \<lparr>start = [2], end' = [], startBoundary = IncludeBoundary,
        endBoundary = IncludeBoundary, immutable = False\<rparr>
    = (Inr True,
      \<lparr>start = [2], end' = [5], startBoundary = ExcludeBoundary,
        endBoundary = ExcludeBoundary, immutable = False\<rparr>)
   \<and> TryIntersectWith IntKey
      \<lparr>start = [2], end' = [5], startBoundary = ExcludeBoundary,
        endBoundary = ExcludeBoundary, immutable = False\<rparr> ()
      (Copy \<lparr>start = [2], end' = [5], startBoundary = ExcludeBoundary,
        endBoundary = ExcludeBoundary, immutable = False\<rparr>)
    = (Inr True,
      \<lparr>start = [2], end' = [5], startBoundary = ExcludeBoundary,
        endBoundary = ExcludeBoundary, immutable = False\<rparr>)"
proof -
  let ?a = "\<lparr>start = [2::int], end' = [5], startBoundary = ExcludeBoundary,
        endBoundary = ExcludeBoundary, immutable = False\<rparr>"
  let ?b = "\<lparr>start = [2::int], end' = [], startBoundary = IncludeBoundary,
        endBoundary = IncludeBoundary, immutable = False\<rparr>"
  have v: "Span_valid IntKey () ?a" "Span_valid IntKey () ?b"
    by (simp_all add: Span_valid_def IntKey_eval)
  have n: "\<not> immutable ?a"
    by simp
  have c: "CompareStarts IntKey ?a () ?b \<ge> 0 \<and> CompareEnds IntKey ?a () ?b \<le> 0"
    by (simp add: IntKey_eval)
  show ?thesis
    using TryIntersectWith_contained [OF IntKey_antisymmetric IntKey_transitive n v] c
    by blast
qed

text \<open>
  C8: for a key comparison that is a total order and valid spans \<open>a\<close> and \<open>b\<close>, intersecting
  a copy of \<open>a\<close> with \<open>b\<close> and a copy of \<open>b\<close> with \<open>a\<close> return the same boolean. When they
  return true, the two results are equal under \<^verbatim>\<open>Span.Compare\<close>; and, as only an extended
  key and itself compare equal in a total order, they have the same start, startBoundary,
  end and endBoundary.
\<close>

theorem TryIntersectWith_commutes:
  assumes A: "Compare_antisymmetric K keyCtx" and T: "Compare_transitive K keyCtx"
    and va: "Span_valid K keyCtx a" and vb: "Span_valid K keyCtx b"
  shows "fst (TryIntersectWith K (Copy a) keyCtx b) = fst (TryIntersectWith K (Copy b) keyCtx a)
    \<and> (fst (TryIntersectWith K (Copy a) keyCtx b) = Inr True \<longrightarrow>
         SpanCompare K (snd (TryIntersectWith K (Copy a) keyCtx b)) keyCtx
           (snd (TryIntersectWith K (Copy b) keyCtx a)) = 0)
    \<and> (Compare_separates K keyCtx \<and> fst (TryIntersectWith K (Copy a) keyCtx b) = Inr True \<longrightarrow>
         start (snd (TryIntersectWith K (Copy a) keyCtx b))
           = start (snd (TryIntersectWith K (Copy b) keyCtx a)) \<and>
         startBoundary (snd (TryIntersectWith K (Copy a) keyCtx b))
           = startBoundary (snd (TryIntersectWith K (Copy b) keyCtx a)) \<and>
         end' (snd (TryIntersectWith K (Copy a) keyCtx b))
           = end' (snd (TryIntersectWith K (Copy b) keyCtx a)) \<and>
         endBoundary (snd (TryIntersectWith K (Copy a) keyCtx b))
           = endBoundary (snd (TryIntersectWith K (Copy b) keyCtx a)))"
proof -
  let ?ra = "intersect_update (CompareStarts K a keyCtx b) (CompareEnds K a keyCtx b) (Copy a) b"
  let ?rb = "intersect_update (CompareStarts K b keyCtx a) (CompareEnds K b keyCtx a) (Copy b) a"
  have na: "\<not> immutable (Copy a)" and nb: "\<not> immutable (Copy b)"
    by (simp_all add: Copy_def)
  have fails: "intersect_fails K keyCtx a b = intersect_fails K keyCtx b a"
    using intersect_fails_sym [OF A T va vb] intersect_fails_sym [OF A T vb va] by blast
  have cs: "CompareStarts K (Copy a) keyCtx b = CompareStarts K a keyCtx b"
      "CompareStarts K (Copy b) keyCtx a = CompareStarts K b keyCtx a"
    by (simp_all add: CompareStarts_def Copy_def startExt_def)
  have ce: "CompareEnds K (Copy a) keyCtx b = CompareEnds K a keyCtx b"
      "CompareEnds K (Copy b) keyCtx a = CompareEnds K b keyCtx a"
    by (simp_all add: CompareEnds_def Copy_def endExt_def)
  have ta: "TryIntersectWith K (Copy a) keyCtx b =
      (if intersect_fails K keyCtx a b then (Inr False, Copy a) else (Inr True, ?ra))"
    by (simp add: TryIntersectWith_unfold [OF na] intersect_fails_Copy cs ce)
  have tb: "TryIntersectWith K (Copy b) keyCtx a =
      (if intersect_fails K keyCtx a b then (Inr False, Copy b) else (Inr True, ?rb))"
    by (simp add: TryIntersectWith_unfold [OF nb] intersect_fails_Copy cs ce fails)
  have flip_ss: "CompareStarts K b keyCtx a = - CompareStarts K a keyCtx b"
    by (rule CompareStarts_flip [OF A])
  have flip_ee: "CompareEnds K b keyCtx a = - CompareEnds K a keyCtx b"
    by (rule CompareEnds_flip [OF A])
  have ra: "start ?ra = (if CompareStarts K a keyCtx b < 0 then start b else start a)"
      "startExt ?ra = (if CompareStarts K a keyCtx b < 0 then startExt b else startExt a)"
      "end' ?ra = (if CompareEnds K a keyCtx b > 0 then end' b else end' a)"
      "endExt ?ra = (if CompareEnds K a keyCtx b > 0 then endExt b else endExt a)"
    by (simp_all add: intersect_update_def Copy_def startExt_def endExt_def Let_def)
  have rb: "start ?rb = (if CompareStarts K a keyCtx b > 0 then start a else start b)"
      "startExt ?rb = (if CompareStarts K a keyCtx b > 0 then startExt a else startExt b)"
      "end' ?rb = (if CompareEnds K a keyCtx b < 0 then end' a else end' b)"
      "endExt ?rb = (if CompareEnds K a keyCtx b < 0 then endExt a else endExt b)"
    by (simp_all add: intersect_update_def Copy_def startExt_def endExt_def Let_def
        flip_ss flip_ee)
  have s0: "\<not> CompareStarts K a keyCtx b < 0 \<Longrightarrow> \<not> CompareStarts K a keyCtx b > 0 \<Longrightarrow>
      Compare K (start a) keyCtx (start b) (startExt a) (startExt b) = 0"
    by (simp add: CompareStarts_def)
  have e0: "\<not> CompareEnds K a keyCtx b < 0 \<Longrightarrow> \<not> CompareEnds K a keyCtx b > 0 \<Longrightarrow>
      Compare K (end' a) keyCtx (end' b) (endExt a) (endExt b) = 0"
    by (simp add: CompareEnds_def)
  have starts: "CompareStarts K ?ra keyCtx ?rb = 0"
    unfolding CompareStarts_def [of K ?ra] ra rb
    using s0 by (simp add: Compare_refl [OF A])
  have ends: "CompareEnds K ?ra keyCtx ?rb = 0"
    unfolding CompareEnds_def [of K ?ra] ra rb
    using e0 by (simp add: Compare_refl [OF A])
  have same: "Compare_separates K keyCtx \<Longrightarrow>
      start ?ra = start ?rb \<and> startBoundary ?ra = startBoundary ?rb \<and>
      end' ?ra = end' ?rb \<and> endBoundary ?ra = endBoundary ?rb"
    using starts ends
    unfolding Compare_separates_def CompareStarts_def CompareEnds_def startExt_def endExt_def
    by blast
  show ?thesis
    using starts ends same
    by (simp add: ta tb SpanCompare_zero_iff)
qed

theorem TryIntersectWith_commutes_witness:
  "TryIntersectWith IntKey
      (Copy \<lparr>start = [1], end' = [5], startBoundary = IncludeBoundary,
        endBoundary = ExcludeBoundary, immutable = True\<rparr>) ()
      \<lparr>start = [1], end' = [3, 7], startBoundary = IncludeBoundary,
        endBoundary = IncludeBoundary, immutable = False\<rparr>
    = (Inr True,
      \<lparr>start = [1], end' = [3, 7], startBoundary = IncludeBoundary,
        endBoundary = IncludeBoundary, immutable = False\<rparr>)
   \<and> snd (TryIntersectWith IntKey
      (Copy \<lparr>start = [1], end' = [3, 7], startBoundary = IncludeBoundary,
        endBoundary = IncludeBoundary, immutable = False\<rparr>) ()
      \<lparr>start = [1], end' = [5], startBoundary = IncludeBoundary,
        endBoundary = ExcludeBoundary, immutable = True\<rparr>)
    = \<lparr>start = [1], end' = [3, 7], startBoundary = IncludeBoundary,
        endBoundary = IncludeBoundary, immutable = False\<rparr>"
proof -
  let ?a = "\<lparr>start = [1::int], end' = [5], startBoundary = IncludeBoundary,
        endBoundary = ExcludeBoundary, immutable = True\<rparr>"
  let ?b = "\<lparr>start = [1::int], end' = [3, 7], startBoundary = IncludeBoundary,
        endBoundary = IncludeBoundary, immutable = False\<rparr>"
  let ?r = "\<lparr>start = [1::int], end' = [3, 7], startBoundary = IncludeBoundary,
        endBoundary = IncludeBoundary, immutable = False\<rparr>"
  have v: "Span_valid IntKey () ?a" "Span_valid IntKey () ?b"
    by (simp_all add: Span_valid_def IntKey_eval)
  have ab: "TryIntersectWith IntKey (Copy ?a) () ?b = (Inr True, ?r)"
    by (simp add: TryIntersectWith_def intersect_update_def Copy_def IntKey_eval)
  have i: "immutable (snd (TryIntersectWith IntKey (Copy ?b) () ?a)) = False"
    by (simp add: TryIntersectWith_def intersect_update_def Copy_def IntKey_eval)
  have "start (snd (TryIntersectWith IntKey (Copy ?b) () ?a)) = [1]
      \<and> startBoundary (snd (TryIntersectWith IntKey (Copy ?b) () ?a)) = IncludeBoundary
      \<and> end' (snd (TryIntersectWith IntKey (Copy ?b) () ?a)) = [3, 7]
      \<and> endBoundary (snd (TryIntersectWith IntKey (Copy ?b) () ?a)) = IncludeBoundary"
    using TryIntersectWith_commutes [OF IntKey_antisymmetric IntKey_transitive v]
      IntKey_separates [of "()"] ab
    by simp
  with i have "snd (TryIntersectWith IntKey (Copy ?b) () ?a) = ?r"
    by (cases "snd (TryIntersectWith IntKey (Copy ?b) () ?a)") simp
  with ab show ?thesis by simp
qed

section \<open>Union\<close>

text \<open>
  C4: for a key comparison that negates when its sides are swapped and an unfrozen span
  \<open>a\<close> (valid or not), \<^verbatim>\<open>TryUnionWith\<close> returns false and leaves \<open>a\<close> unchanged exactly when
  the span with the strictly lesser start has an end strictly less, as an extended key,
  than the start of the other span; otherwise it returns true and \<open>a\<close> has the lesser of the
  two starts and the greater of the two ends. Over integer keys: \<^verbatim>\<open>[1 - 5]\<close> union
  \<^verbatim>\<open>[10 - 15]\<close> returns false and leaves \<^verbatim>\<open>[1 - 5]\<close>; \<^verbatim>\<open>[1 - 5]\<close> union \<^verbatim>\<open>[5 - 10]\<close>
  returns true and gives \<^verbatim>\<open>[1 - 10]\<close>; \<^verbatim>\<open>[1 - 5)\<close> union \<^verbatim>\<open>(5 - 10]\<close> returns false.
\<close>

theorem TryUnionWith_spec:
  "(Compare_antisymmetric K keyCtx \<and> \<not> immutable a \<longrightarrow>
      TryUnionWith K a keyCtx b =
        (if union_gap K keyCtx a b then (Inr False, a)
         else (Inr True, union_of K keyCtx a b)))
   \<and> TryUnionWith IntKey
        \<lparr>start = [1], end' = [5], startBoundary = IncludeBoundary,
          endBoundary = IncludeBoundary, immutable = False\<rparr> ()
        \<lparr>start = [10], end' = [15], startBoundary = IncludeBoundary,
          endBoundary = IncludeBoundary, immutable = False\<rparr>
      = (Inr False,
        \<lparr>start = [1], end' = [5], startBoundary = IncludeBoundary,
          endBoundary = IncludeBoundary, immutable = False\<rparr>)
   \<and> TryUnionWith IntKey
        \<lparr>start = [1], end' = [5], startBoundary = IncludeBoundary,
          endBoundary = IncludeBoundary, immutable = False\<rparr> ()
        \<lparr>start = [5], end' = [10], startBoundary = IncludeBoundary,
          endBoundary = IncludeBoundary, immutable = False\<rparr>
      = (Inr True,
        \<lparr>start = [1], end' = [10], startBoundary = IncludeBoundary,
          endBoundary = IncludeBoundary, immutable = False\<rparr>)
   \<and> TryUnionWith IntKey
        \<lparr>start = [1], end' = [5], startBoundary = IncludeBoundary,
          endBoundary = ExcludeBoundary, immutable = False\<rparr> ()
        \<lparr>start = [5], end' = [10], startBoundary = ExcludeBoundary,
          endBoundary = IncludeBoundary, immutable = False\<rparr>
      = (Inr False,
        \<lparr>start = [1], end' = [5], startBoundary = IncludeBoundary,
          endBoundary = ExcludeBoundary, immutable = False\<rparr>)"
proof (intro conjI impI)
  assume h: "Compare_antisymmetric K keyCtx \<and> \<not> immutable a"
  then have "Compare_antisymmetric K keyCtx"
    by blast
  then have flip: "CompareStarts K b keyCtx a = - CompareStarts K a keyCtx b"
    by (rule CompareStarts_flip)
  from h show "TryUnionWith K a keyCtx b =
      (if union_gap K keyCtx a b then (Inr False, a) else (Inr True, union_of K keyCtx a b))"
    by (auto simp: TryUnionWith_def union_gap_def Let_def union_update_eq flip)
qed (simp_all add: TryUnionWith_def union_update_def IntKey_eval)

theorem TryUnionWith_spec_witness:
  "TryUnionWith IntKey
      \<lparr>start = [5], end' = [10], startBoundary = ExcludeBoundary,
        endBoundary = ExcludeBoundary, immutable = False\<rparr> ()
      \<lparr>start = [1], end' = [5], startBoundary = IncludeBoundary,
        endBoundary = IncludeBoundary, immutable = False\<rparr>
    = (Inr True,
      \<lparr>start = [1], end' = [10], startBoundary = IncludeBoundary,
        endBoundary = ExcludeBoundary, immutable = False\<rparr>)
   \<and> TryUnionWith IntKey
      \<lparr>start = [5], end' = [10], startBoundary = ExcludeBoundary,
        endBoundary = ExcludeBoundary, immutable = False\<rparr> ()
      \<lparr>start = [1], end' = [5], startBoundary = IncludeBoundary,
        endBoundary = ExcludeBoundary, immutable = False\<rparr>
    = (Inr False,
      \<lparr>start = [5], end' = [10], startBoundary = ExcludeBoundary,
        endBoundary = ExcludeBoundary, immutable = False\<rparr>)"
proof -
  let ?a = "\<lparr>start = [5::int], end' = [10], startBoundary = ExcludeBoundary,
        endBoundary = ExcludeBoundary, immutable = False\<rparr>"
  let ?b = "\<lparr>start = [1::int], end' = [5], startBoundary = IncludeBoundary,
        endBoundary = IncludeBoundary, immutable = False\<rparr>"
  let ?c = "\<lparr>start = [1::int], end' = [5], startBoundary = IncludeBoundary,
        endBoundary = ExcludeBoundary, immutable = False\<rparr>"
  have n: "\<not> immutable ?a"
    by simp
  have "TryUnionWith IntKey ?a () ?b =
      (if union_gap IntKey () ?a ?b then (Inr False, ?a)
       else (Inr True, union_of IntKey () ?a ?b))"
    using TryUnionWith_spec [of IntKey "()" ?a ?b] IntKey_antisymmetric [of "()"] n
    by blast
  moreover have "TryUnionWith IntKey ?a () ?c =
      (if union_gap IntKey () ?a ?c then (Inr False, ?a)
       else (Inr True, union_of IntKey () ?a ?c))"
    using TryUnionWith_spec [of IntKey "()" ?a ?c] IntKey_antisymmetric [of "()"] n
    by blast
  ultimately show ?thesis
    by (simp add: union_gap_def union_of_def smaller_start_def larger_end_def IntKey_eval)
qed

section \<open>Normalisation to inclusive bounds\<close>

text \<open>
  C9: on an unfrozen span \<^verbatim>\<open>PreferInclusive\<close> returns normally; an exclusive start whose key
  has a next value becomes that value with an inclusive boundary, an exclusive end whose
  key has a previous value becomes that value with an inclusive boundary, and a side that
  is inclusive already, or whose key lacks the operation, is left as it is, whatever
  happens to the other side. Over integer keys \<^verbatim>\<open>(1 - 5)\<close> becomes \<^verbatim>\<open>[2 - 4]\<close>.
\<close>

theorem PreferInclusive_spec:
  "(\<not> immutable sp \<longrightarrow>
      PreferInclusive K sp keyCtx =
        (Inr (), sp\<lparr>start := fst (inclusive_start K keyCtx sp),
                     end' := fst (inclusive_end K keyCtx sp),
                     startBoundary := snd (inclusive_start K keyCtx sp),
                     endBoundary := snd (inclusive_end K keyCtx sp)\<rparr>))
   \<and> PreferInclusive IntKey
        \<lparr>start = [1], end' = [5], startBoundary = ExcludeBoundary,
          endBoundary = ExcludeBoundary, immutable = False\<rparr> ()
      = (Inr (),
        \<lparr>start = [2], end' = [4], startBoundary = IncludeBoundary,
          endBoundary = IncludeBoundary, immutable = False\<rparr>)"
proof (intro conjI impI)
  assume "\<not> immutable sp"
  then show "PreferInclusive K sp keyCtx =
        (Inr (), sp\<lparr>start := fst (inclusive_start K keyCtx sp),
                     end' := fst (inclusive_end K keyCtx sp),
                     startBoundary := snd (inclusive_start K keyCtx sp),
                     endBoundary := snd (inclusive_end K keyCtx sp)\<rparr>)"
    by (cases "Next K (start sp) keyCtx"; cases "Prev K (end' sp) keyCtx")
      (simp add: PreferInclusive_def inclusive_start_def inclusive_end_def Let_def)
qed (simp add: PreferInclusive_def IntKey_eval)

theorem PreferInclusive_spec_witness:
  "PreferInclusive NoPrevKey
      \<lparr>start = [1], end' = [5], startBoundary = ExcludeBoundary,
        endBoundary = ExcludeBoundary, immutable = False\<rparr> ()
    = (Inr (),
      \<lparr>start = [2], end' = [5], startBoundary = IncludeBoundary,
        endBoundary = ExcludeBoundary, immutable = False\<rparr>)
   \<and> PreferInclusive IntKey
      \<lparr>start = [], end' = [3, 8], startBoundary = IncludeBoundary,
        endBoundary = ExcludeBoundary, immutable = False\<rparr> ()
    = (Inr (),
      \<lparr>start = [], end' = [3, 7], startBoundary = IncludeBoundary,
        endBoundary = IncludeBoundary, immutable = False\<rparr>)"
proof -
  let ?a = "\<lparr>start = [1::int], end' = [5], startBoundary = ExcludeBoundary,
        endBoundary = ExcludeBoundary, immutable = False\<rparr>"
  let ?b = "\<lparr>start = [] :: int list, end' = [3, 8], startBoundary = IncludeBoundary,
        endBoundary = ExcludeBoundary, immutable = False\<rparr>"
  have n: "\<not> immutable ?a" "\<not> immutable ?b"
    by simp_all
  have "PreferInclusive NoPrevKey ?a () =
        (Inr (), ?a\<lparr>start := fst (inclusive_start NoPrevKey () ?a),
                     end' := fst (inclusive_end NoPrevKey () ?a),
                     startBoundary := snd (inclusive_start NoPrevKey () ?a),
                     endBoundary := snd (inclusive_end NoPrevKey () ?a)\<rparr>)"
    using PreferInclusive_spec [of ?a NoPrevKey "()"] n(1) by blast
  moreover have "PreferInclusive IntKey ?b () =
        (Inr (), ?b\<lparr>start := fst (inclusive_start IntKey () ?b),
                     end' := fst (inclusive_end IntKey () ?b),
                     startBoundary := snd (inclusive_start IntKey () ?b),
                     endBoundary := snd (inclusive_end IntKey () ?b)\<rparr>)"
    using PreferInclusive_spec [of ?b IntKey "()"] n(2) by blast
  ultimately show ?thesis
    by (simp add: inclusive_start_def inclusive_end_def NoPrevKey_def IntKey_eval)
qed

end
